theory Spec2Isabelle
  imports Complex_Main "HOL-Library.Word"
begin

section \<open>Client-side processing pipeline of the file tools\<close>

text \<open>
  The definitions follow the TypeScript module that exports \<open>validateFile\<close>,
  \<open>ProgressTracker\<close>, \<open>RateLimiter\<close>, \<open>ErrorHandler\<close> and \<open>FileProcessor\<close>.
  JavaScript strings are modelled as \<open>string\<close>, byte buffers as lists of 8-bit words,
  time stamps (\<open>Date.now()\<close>, integral milliseconds) as \<open>int\<close> and byte counts as \<open>nat\<close>.
  Every source of nondeterminism (\<open>Date.now()\<close>, \<open>Math.random()\<close>), every vendor library
  and the rounding arithmetic of doubles is an explicit argument.
\<close>

subsection \<open>Numbers\<close>

text \<open>
  A value of type \<open>number\<close> where it is not known to be an integer: a finite value, one
  of the two infinities, or \<open>NaN\<close>. \<open>Finite r\<close> written with a decimal literal is the
  number that literal denotes. \<open>Math.max\<close> and \<open>Math.min\<close> of two arguments round
  nothing: the result is \<open>NaN\<close> if an argument is, and else one of the arguments.
\<close>

datatype number = Finite real | PosInf | NegInf | NaN

fun math_max :: "number \<Rightarrow> number \<Rightarrow> number" where
  "math_max NaN b = NaN"
| "math_max a NaN = NaN"
| "math_max PosInf b = PosInf"
| "math_max a PosInf = PosInf"
| "math_max NegInf b = b"
| "math_max a NegInf = a"
| "math_max (Finite x) (Finite y) = Finite (max x y)"

fun math_min :: "number \<Rightarrow> number \<Rightarrow> number" where
  "math_min NaN b = NaN"
| "math_min a NaN = NaN"
| "math_min NegInf b = NegInf"
| "math_min a NegInf = NegInf"
| "math_min PosInf b = b"
| "math_min a PosInf = a"
| "math_min (Finite x) (Finite y) = Finite (min x y)"

text \<open>A number from 0 to 100.\<close>

fun percentage :: "number \<Rightarrow> bool" where
  "percentage (Finite r) = (0 \<le> r \<and> r \<le> 100)"
| "percentage PosInf = False"
| "percentage NegInf = False"
| "percentage NaN = False"

subsection \<open>RateLimiter\<close>

text \<open>
  \<^verbatim>\<open>private requests = new Map<string, number[]>();
  private readonly maxRequests = 50;
  private readonly windowMs = 15 * 60 * 1000;\<close>
\<close>

record RateLimiter =
  requests :: "string \<rightharpoonup> int list"

definition maxRequests :: nat where
  "maxRequests = 50"

definition windowMs :: int where
  "windowMs = 15 * 60 * 1000"

text \<open>\<^verbatim>\<open>this.requests.get(identifier) || []\<close>: an array is truthy, so only a missing key
  gives the empty array.\<close>

definition userRequests :: "RateLimiter \<Rightarrow> string \<Rightarrow> int list" where
  "userRequests rl identifier =
     (case requests rl identifier of None \<Rightarrow> [] | Some ts \<Rightarrow> ts)"

definition validRequests :: "int \<Rightarrow> RateLimiter \<Rightarrow> string \<Rightarrow> int list" where
  "validRequests now rl identifier =
     filter (\<lambda>timestamp. now - timestamp < windowMs) (userRequests rl identifier)"

text \<open>\<open>isAllowed\<close>; the first argument is the value \<open>Date.now()\<close> returns in the call.
  \<open>filter\<close> builds a new array, so the stored array is only replaced by \<open>set\<close>.\<close>

definition isAllowed :: "int \<Rightarrow> string \<Rightarrow> RateLimiter \<Rightarrow> bool \<times> RateLimiter" where
  "isAllowed now identifier rl =
     (let vs = validRequests now rl identifier in
      if length vs \<ge> maxRequests then (False, rl)
      else (True, rl\<lparr>requests := (requests rl)(identifier \<mapsto> vs @ [now])\<rparr>))"

definition getRemainingRequests :: "int \<Rightarrow> string \<Rightarrow> RateLimiter \<Rightarrow> nat" where
  "getRemainingRequests now identifier rl =
     maxRequests - length (validRequests now rl identifier)"

definition getResetTime :: "string \<Rightarrow> RateLimiter \<Rightarrow> int" where
  "getResetTime identifier rl =
     (case userRequests rl identifier of
        [] \<Rightarrow> 0
      | t # ts \<Rightarrow> fold min ts t + windowMs)"

text \<open>A run of consecutive \<open>isAllowed\<close> calls for one identifier, at the given clock
  readings; the answers are collected in call order.\<close>

fun isAllowed_calls :: "int list \<Rightarrow> string \<Rightarrow> RateLimiter \<Rightarrow> bool list \<times> RateLimiter" where
  "isAllowed_calls [] identifier rl = ([], rl)"
| "isAllowed_calls (now # nows) identifier rl =
     (let (b, rl') = isAllowed now identifier rl;
          (bs, rl'') = isAllowed_calls nows identifier rl'
      in (b # bs, rl''))"

text \<open>All clock readings of a run lie in one window: no call is \<open>windowMs\<close> or more
  after an earlier one.\<close>

fun within_window :: "int list \<Rightarrow> bool" where
  "within_window [] = True"
| "within_window (t # ts) = (list_all (\<lambda>u. u - t < windowMs) ts \<and> within_window ts)"

subsection \<open>ProgressTracker\<close>

text \<open>
  \<^verbatim>\<open>private progressCallbacks = new Map<string, (progress: number) => void>();\<close>
  A callback is an opaque procedure of the caller, of type \<open>'cb\<close>. What the tracker does
  with it is observable only as a call, so the state carries, besides the map, the log
  \<open>invoked\<close> of the calls made so far (callback and argument, oldest first), in the way a
  spy records them. Callbacks are taken to return normally.
\<close>

record 'cb ProgressTracker =
  progressCallbacks :: "string \<rightharpoonup> 'cb"
  invoked :: "('cb \<times> number) list"

definition trackProgress :: "string \<Rightarrow> 'cb \<Rightarrow> 'cb ProgressTracker \<Rightarrow> 'cb ProgressTracker" where
  "trackProgress jobId callback pt =
     pt\<lparr>progressCallbacks := (progressCallbacks pt)(jobId \<mapsto> callback)\<rparr>"

text \<open>\<^verbatim>\<open>Math.min(100, Math.max(0, progress))\<close>\<close>

definition clamp_progress :: "number \<Rightarrow> number" where
  "clamp_progress progress = math_min (Finite 100) (math_max (Finite 0) progress)"

definition updateProgress :: "string \<Rightarrow> number \<Rightarrow> 'cb ProgressTracker \<Rightarrow> 'cb ProgressTracker" where
  "updateProgress jobId progress pt =
     (case progressCallbacks pt jobId of
        Some callback \<Rightarrow> pt\<lparr>invoked := invoked pt @ [(callback, clamp_progress progress)]\<rparr>
      | None \<Rightarrow> pt)"

definition removeProgress :: "string \<Rightarrow> 'cb ProgressTracker \<Rightarrow> 'cb ProgressTracker" where
  "removeProgress jobId pt =
     pt\<lparr>progressCallbacks := (progressCallbacks pt)(jobId := None)\<rparr>"

definition completeProgress :: "string \<Rightarrow> 'cb ProgressTracker \<Rightarrow> 'cb ProgressTracker" where
  "completeProgress jobId pt = removeProgress jobId (updateProgress jobId (Finite 100) pt)"

subsection \<open>Values shared by the validator and the processor\<close>

type_synonym bytes = "8 word list"

text \<open>The browser's \<open>File\<close>: name, declared MIME type, size, and the bytes a read
  delivers; \<open>None\<close> is a blob whose read fails (\<open>FileReader.onerror\<close>, a rejected
  \<open>arrayBuffer()\<close>).\<close>

record File =
  file_name :: string
  file_type :: string
  file_size :: nat
  file_bytes :: "bytes option"

record ValidationResult =
  isValid :: bool
  errors :: "string list"

text \<open>\<open>ProcessingOptions\<close>, with the extra property \<open>additionalFiles\<close> that the tool
  card puts into the options object it passes:
  \<^verbatim>\<open>{ ...options, additionalFiles: fileToProcess.slice(1) }\<close>\<close>

record ProcessingOptions =
  quality :: "string option"
  compression :: "bool option"
  format :: "string option"
  pages :: "int list option"
  additionalFiles :: "File list option"

record ProcessedFile =
  buffer :: bytes
  fileName :: string
  mimeType :: string
  byteSize :: nat

text \<open>Thrown values: a plain \<open>Error\<close> with its \<open>name\<close> and \<open>message\<close>, or a
  \<open>ProcessingError\<close> (message, code, recoverable, context), whose constructor sets the
  name \<open>ProcessingError\<close>.\<close>

datatype jserror =
    Error string string
  | ProcessingError string string bool "string option"

fun error_name :: "jserror \<Rightarrow> string" where
  "error_name (Error n m) = n"
| "error_name (ProcessingError m c r ctx) = ''ProcessingError''"

fun error_message :: "jserror \<Rightarrow> string" where
  "error_message (Error n m) = m"
| "error_message (ProcessingError m c r ctx) = m"

text \<open>Pages of a PDF document, opaque to this code.\<close>

datatype page = Page nat

text \<open>
  What the module takes from the runtime and from the vendor libraries, none of it
  defined in the module except \<open>formatBytes\<close> and \<open>createWordDocument\<close>:
  \<^item> \<open>formatBytes\<close>: the module's byte formatter, floating-point text formatting
    (\<open>Math.log\<close>, \<open>toFixed\<close>, \<open>parseFloat\<close>) that only ends up inside a message;
  \<^item> \<open>createWordDocument\<close>: the module's HTML template around the extracted text;
  \<^item> \<open>undefined_read_message\<close>: the engine's \<open>TypeError\<close> message for reading a property of
    \<open>undefined\<close>;
  \<^item> \<open>arrayBuffer_error\<close>: what a rejected \<open>file.arrayBuffer()\<close> throws;
  \<^item> \<open>pdfjs_getDocument\<close>: pdf.js, the pages of a document, each with the strings of its
    text items, or the error thrown while loading the document or reading a page;
  \<^item> \<open>pdflib_load\<close>, \<open>pdflib_save\<close>: pdf-lib; the flag of \<open>pdflib_save\<close> says whether the
    options \<open>{useObjectStreams, addDefaultPage, objectsPerTick}\<close> are passed;
  \<^item> \<open>text_encode\<close>: \<open>TextEncoder.encode\<close>;
  \<^item> \<open>canvas_getContext\<close>: whether a 2d context is available;
  \<^item> \<open>image_load\<close>: width and height of the decoded image, \<open>None\<close> for \<open>onerror\<close>;
  \<^item> \<open>canvas_toBlob\<close>: the encoded canvas for the image drawn at the given canvas size,
    MIME type and quality, \<open>None\<close> for a null blob;
  \<^item> \<open>double_add\<close>, \<open>double_mul\<close>, \<open>double_div\<close>: the operators \<open>+\<close>, \<open>*\<close> and \<open>/\<close> on
    numbers, which round to a double;
  \<^item> \<open>math_round\<close>: \<open>Math.round\<close>.
\<close>

record env =
  formatBytes :: "nat \<Rightarrow> string"
  createWordDocument :: "string \<Rightarrow> string"
  undefined_read_message :: string
  arrayBuffer_error :: jserror
  pdfjs_getDocument :: "bytes \<Rightarrow> jserror + (jserror + string list) list"
  pdflib_load :: "bytes \<Rightarrow> jserror + page list"
  pdflib_save :: "bool \<Rightarrow> page list \<Rightarrow> jserror + bytes"
  text_encode :: "string \<Rightarrow> bytes"
  canvas_getContext :: bool
  image_load :: "File \<Rightarrow> (nat \<times> nat) option"
  canvas_toBlob :: "File \<Rightarrow> number \<times> number \<Rightarrow> string \<Rightarrow> number \<Rightarrow> bytes option"
  double_add :: "number \<Rightarrow> number \<Rightarrow> number"
  double_mul :: "number \<Rightarrow> number \<Rightarrow> number"
  double_div :: "number \<Rightarrow> number \<Rightarrow> number"
  math_round :: "number \<Rightarrow> number"

subsection \<open>Property lookup in an object literal\<close>

text \<open>
  \<open>signatures\<close> and \<open>configs\<close> are object literals read with \<open>table[key]\<close>. Such a read
  finds the literal's own properties and, for any other key, the properties every object
  inherits from \<open>Object.prototype\<close>; all of these are functions or objects, hence truthy,
  and none of them is an array or has the fields of a configuration. The names are
  those of the ECMAScript standard library.
\<close>

datatype 'a js_lookup = Own 'a | Inherited | Undefined

definition objectPrototypeKeys :: "string list" where
  "objectPrototypeKeys =
     [''constructor'', ''hasOwnProperty'', ''isPrototypeOf'', ''propertyIsEnumerable'',
      ''toLocaleString'', ''toString'', ''valueOf'', ''__proto__'', ''__defineGetter__'',
      ''__defineSetter__'', ''__lookupGetter__'', ''__lookupSetter__'']"

definition object_get :: "(string \<times> 'a) list \<Rightarrow> string \<Rightarrow> 'a js_lookup" where
  "object_get table key =
     (case map_of table key of
        Some v \<Rightarrow> Own v
      | None \<Rightarrow> if key \<in> set objectPrototypeKeys then Inherited else Undefined)"

subsection \<open>SecurityValidator and validateFile\<close>

definition signatures :: "(string \<times> bytes) list" where
  "signatures =
     [(''application/pdf'', [0x25, 0x50, 0x44, 0x46]),
      (''image/jpeg'', [0xFF, 0xD8, 0xFF]),
      (''image/png'', [0x89, 0x50, 0x4E, 0x47]),
      (''application/zip'', [0x50, 0x4B, 0x03, 0x04]),
      (''application/vnd.openxmlformats-officedocument.wordprocessingml.document'',
         [0x50, 0x4B, 0x03, 0x04]),
      (''application/vnd.openxmlformats-officedocument.spreadsheetml.sheet'',
         [0x50, 0x4B, 0x03, 0x04])]"

text \<open>
  \<open>checkMagicNumbers\<close>. \<^verbatim>\<open>if (!signature) return true\<close> lets an undefined entry pass;
  \<open>every\<close> compares each signature byte with \<open>bytes[index]\<close>, which is \<open>undefined\<close> past
  the end of the view; an inherited member has no \<open>every\<close>, and calling it throws
  (\<open>None\<close>).
\<close>

definition checkMagicNumbers :: "bytes \<Rightarrow> string \<Rightarrow> bool option" where
  "checkMagicNumbers view mime =
     (case object_get signatures mime of
        Undefined \<Rightarrow> Some True
      | Inherited \<Rightarrow> None
      | Own signature \<Rightarrow>
          Some (length signature \<le> length view \<and> take (length signature) view = signature))"

text \<open>
  \<open>validateFileContent\<close> resolves its promise from the reader's \<open>onload\<close> handler with
  the result of \<open>checkMagicNumbers\<close> on the first 16 bytes, or with \<open>false\<close> from
  \<open>onerror\<close>. An exception inside the handler leaves the promise pending for ever:
  the result \<open>None\<close>.
\<close>

definition validateFileContent :: "File \<Rightarrow> bool option" where
  "validateFileContent file =
     (case file_bytes file of
        None \<Rightarrow> Some False
      | Some content \<Rightarrow> checkMagicNumbers (take 16 content) (file_type file))"

text \<open>The four patterns \<^verbatim>\<open>/\.exe$/i\<close>, \<^verbatim>\<open>/\.bat$/i\<close>, \<^verbatim>\<open>/\.cmd$/i\<close>, \<^verbatim>\<open>/\.scr$/i\<close>:
  the name ends with the extension, letters compared without regard to case. Without
  the \<open>u\<close> flag a letter of the pattern matches only its own two ASCII forms.\<close>

definition ascii_upper :: "char \<Rightarrow> char" where
  "ascii_upper c =
     (case map_of (zip ''abcdefghijklmnopqrstuvwxyz'' ''ABCDEFGHIJKLMNOPQRSTUVWXYZ'') c of
        Some u \<Rightarrow> u
      | None \<Rightarrow> c)"

definition test_extension :: "string \<Rightarrow> string \<Rightarrow> bool" where
  "test_extension ext name =
     (length ext \<le> length name \<and>
      map ascii_upper (drop (length name - length ext) name) = map ascii_upper ext)"

definition dangerousPatterns :: "string list" where
  "dangerousPatterns = [''.exe'', ''.bat'', ''.cmd'', ''.scr'']"

definition dangerous_name :: "string \<Rightarrow> bool" where
  "dangerous_name name = list_ex (\<lambda>pattern. test_extension pattern name) dangerousPatterns"

text \<open>\<open>validateFile\<close>: the four checks in source order, every failure collected.\<close>

definition validateFile :: "env \<Rightarrow> File \<Rightarrow> string list \<Rightarrow> nat \<Rightarrow> ValidationResult" where
  "validateFile rt file allowedTypes maxSize =
     (let errs =
            (if file_type file \<notin> set allowedTypes
             then [''File type '' @ file_type file @ '' not supported''] else [])
          @ (if file_size file > maxSize
             then [''File size exceeds '' @ formatBytes rt maxSize @ '' limit''] else [])
          @ (if length (file_name file) > 255 then [''File name too long''] else [])
          @ (if dangerous_name (file_name file)
             then [''File type not allowed for security reasons''] else [])
      in \<lparr>isValid = (length errs = 0), errors = errs\<rparr>)"

subsection \<open>ErrorHandler\<close>

text \<open>\<open>String.prototype.includes\<close>\<close>

fun str_includes :: "string \<Rightarrow> string \<Rightarrow> bool" where
  "str_includes [] sub = (sub = [])"
| "str_includes (c # cs) sub = (take (length sub) (c # cs) = sub \<or> str_includes cs sub)"

definition getUserFriendlyMessage :: "jserror \<Rightarrow> string" where
  "getUserFriendlyMessage error =
     (if error_name error = ''QuotaExceededError''
        then ''Storage quota exceeded. Please free up space and try again.''
      else if error_name error = ''NetworkError''
        then ''Network connection lost. Please check your internet and retry.''
      else if str_includes (error_message error) ''corrupted''
        then ''The file appears to be corrupted. Please try with a different file.''
      else if str_includes (error_message error) ''timeout''
        then ''Processing timed out. Please try with a smaller file.''
      else if str_includes (error_message error) ''memory''
        then ''Insufficient memory to process this file. Please try with a smaller file.''
      else ''An unexpected error occurred. Please try again.'')"

definition isRecoverable :: "jserror \<Rightarrow> bool" where
  "isRecoverable error =
     (error_name error \<notin> set [''QuotaExceededError'', ''SecurityError'', ''NotSupportedError''])"

text \<open>
  \<open>handleProcessingError\<close>; \<open>errorId\<close> is the value \<open>generateErrorId()\<close> returns,
  \<^verbatim>\<open>Math.random().toString(36).substr(2, 9)\<close>. The console log and the report to
  \<open>gtag\<close> leave the module and are not modelled. The identifier is passed in the
  position of the constructor's \<open>code\<close> parameter:
  \<^verbatim>\<open>return new ProcessingError(message, errorId, recoverable, context);\<close>
\<close>

definition handleProcessingError :: "string \<Rightarrow> jserror \<Rightarrow> string \<Rightarrow> jserror" where
  "handleProcessingError errorId error context =
     ProcessingError (getUserFriendlyMessage error) errorId (isRecoverable error) (Some context)"

text \<open>The strings \<open>substr(2, 9)\<close> can return: at most nine digits in base 36.\<close>

definition generated_id :: "string \<Rightarrow> bool" where
  "generated_id s =
     (length s \<le> 9 \<and> list_all (\<lambda>c. c \<in> set ''0123456789abcdefghijklmnopqrstuvwxyz'') s)"

subsection \<open>FileProcessor: state and helpers\<close>

text \<open>
  The processor owns a private tracker (\<^verbatim>\<open>private progressTracker = new ProgressTracker()\<close>),
  an object of its own beside the exported global \<open>progressTracker\<close>, which the processor
  never touches. \<open>entered\<close> is the log a spy on the private methods would keep: the
  dispatcher and each tool routine, with the files it was given, oldest first. The
  fields \<open>workers\<close> and \<open>maxWorkers\<close> are never read. A call of \<open>processFile\<close> is
  modelled as one step from the state before it to the state after it.
\<close>

record 'cb FileProcessor =
  progressTracker :: "'cb ProgressTracker"
  entered :: "(string \<times> File list) list"

type_synonym 'cb outcome = "(jserror + ProcessedFile) \<times> 'cb FileProcessor"

text \<open>\<^verbatim>\<open>this.progressTracker.updateProgress(jobId, n)\<close>\<close>

definition progress :: "string \<Rightarrow> number \<Rightarrow> 'cb FileProcessor \<Rightarrow> 'cb FileProcessor" where
  "progress jobId n fp = fp\<lparr>progressTracker := updateProgress jobId n (progressTracker fp)\<rparr>"

definition enter :: "string \<Rightarrow> File list \<Rightarrow> 'cb FileProcessor \<Rightarrow> 'cb FileProcessor" where
  "enter method files fp = fp\<lparr>entered := entered fp @ [(method, files)]\<rparr>"

definition newline :: char where
  "newline = CHR 0x0A"

text \<open>\<open>Array.prototype.join\<close>\<close>

fun join :: "string \<Rightarrow> string list \<Rightarrow> string" where
  "join sep [] = []"
| "join sep [x] = x"
| "join sep (x # y # ys) = x @ sep @ join sep (y # ys)"

text \<open>\<open>name.replace(sub, by)\<close> with a string pattern: the first occurrence only.\<close>

fun replace_first :: "string \<Rightarrow> string \<Rightarrow> string \<Rightarrow> string" where
  "replace_first sub by [] = (if sub = [] then by else [])"
| "replace_first sub by (c # cs) =
     (if take (length sub) (c # cs) = sub then by @ drop (length sub) (c # cs)
      else c # replace_first sub by cs)"

text \<open>\<^verbatim>\<open>name.replace(/\.[^.]+$/, by)\<close>: the last dot and what follows it, when something
  follows it.\<close>

definition replace_extension :: "string \<Rightarrow> string \<Rightarrow> string" where
  "replace_extension by name =
     (let ext = takeWhile (\<lambda>c. c \<noteq> CHR ''.'') (rev name) in
      if ext \<noteq> [] \<and> length ext < length name
      then take (length name - length ext - 1) name @ by
      else name)"

text \<open>\<open>calculateNewDimensions\<close>: the quotient, the product and \<open>Math.round\<close> are those
  of the runtime.\<close>

definition calculateNewDimensions ::
  "env \<Rightarrow> nat \<Rightarrow> nat \<Rightarrow> ProcessingOptions \<Rightarrow> number \<times> number" where
  "calculateNewDimensions rt originalWidth originalHeight options =
     (let targetWidth = Finite 800;
          aspectRatio = double_div rt (Finite (real originalHeight)) (Finite (real originalWidth))
      in (targetWidth, math_round rt (double_mul rt targetWidth aspectRatio)))"

definition getCompressionQuality :: "string \<Rightarrow> number" where
  "getCompressionQuality q =
     (if q = ''high'' then Finite 0.9
      else if q = ''medium'' then Finite 0.7
      else if q = ''low'' then Finite 0.5
      else Finite 0.7)"

subsection \<open>Tool configuration\<close>

record ToolConfig =
  allowedTypes :: "string list"
  maxSize :: nat

definition configs :: "(string \<times> ToolConfig) list" where
  "configs =
     [(''pdf-to-word'', \<lparr>allowedTypes = [''application/pdf''], maxSize = 100 * 1024 * 1024\<rparr>),
      (''merge-pdf'', \<lparr>allowedTypes = [''application/pdf''], maxSize = 100 * 1024 * 1024\<rparr>),
      (''compress-pdf'', \<lparr>allowedTypes = [''application/pdf''], maxSize = 100 * 1024 * 1024\<rparr>),
      (''image-resize'',
         \<lparr>allowedTypes = [''image/jpeg'', ''image/png'', ''image/gif'', ''image/webp''],
          maxSize = 50 * 1024 * 1024\<rparr>),
      (''image-compress'',
         \<lparr>allowedTypes = [''image/jpeg'', ''image/png'', ''image/gif'', ''image/webp''],
          maxSize = 50 * 1024 * 1024\<rparr>)]"

definition fallbackConfig :: ToolConfig where
  "fallbackConfig = \<lparr>allowedTypes = [''*/*''], maxSize = 100 * 1024 * 1024\<rparr>"

text \<open>\<open>getToolConfig\<close>: \<^verbatim>\<open>configs[toolId] || { allowedTypes: ['*/*'], ... }\<close>. The result
  is never \<open>Undefined\<close>; \<open>Inherited\<close> is a member of \<open>Object.prototype\<close>, which is truthy
  and is returned as the configuration.\<close>

definition getToolConfig :: "string \<Rightarrow> ToolConfig js_lookup" where
  "getToolConfig toolId =
     (case object_get configs toolId of
        Own c \<Rightarrow> Own c
      | Inherited \<Rightarrow> Inherited
      | Undefined \<Rightarrow> Own fallbackConfig)"

text \<open>
  \<open>validateFileForTool\<close>. The result is \<open>None\<close> when the content check never settles.
  With an inherited member as configuration, \<open>toolConfig.allowedTypes\<close> is \<open>undefined\<close> and
  \<open>validateFile\<close> throws a \<open>TypeError\<close> at \<open>allowedTypes.includes\<close>.
\<close>

definition validateFileForTool :: "env \<Rightarrow> File \<Rightarrow> string \<Rightarrow> (jserror + ValidationResult) option" where
  "validateFileForTool rt file toolId =
     (let toolConfig = getToolConfig toolId in
      case validateFileContent file of
        None \<Rightarrow> None
      | Some False \<Rightarrow>
          Some (Inr \<lparr>isValid = False, errors = [''File content validation failed'']\<rparr>)
      | Some True \<Rightarrow>
          (case toolConfig of
             Own c \<Rightarrow> Some (Inr (validateFile rt file (allowedTypes c) (maxSize c)))
           | _ \<Rightarrow> Some (Inl (Error ''TypeError'' (undefined_read_message rt)))))"

subsection \<open>Tool routines\<close>

text \<open>The page loop of \<open>processPDFToWord\<close>, \<open>i\<close> counting from 1; the progress is
  \<^verbatim>\<open>50 + (i / totalPages) * 40\<close>.\<close>

fun extract_pages ::
  "env \<Rightarrow> string \<Rightarrow> nat \<Rightarrow> nat \<Rightarrow> (jserror + string list) list \<Rightarrow> string \<Rightarrow> 'cb FileProcessor
     \<Rightarrow> (jserror + string) \<times> 'cb FileProcessor" where
  "extract_pages rt jobId totalPages i [] fullText fp = (Inr fullText, fp)"
| "extract_pages rt jobId totalPages i (p # ps) fullText fp =
     (case p of
        Inl e \<Rightarrow> (Inl e, fp)
      | Inr items \<Rightarrow>
          extract_pages rt jobId totalPages (i + 1) ps
            (fullText @ join '' '' items @ [newline, newline])
            (progress jobId
               (double_add rt (Finite 50)
                  (double_mul rt
                     (double_div rt (Finite (real i)) (Finite (real totalPages)))
                     (Finite 40)))
               fp))"

definition processPDFToWord ::
  "env \<Rightarrow> File \<Rightarrow> ProcessingOptions \<Rightarrow> string \<Rightarrow> 'cb FileProcessor \<Rightarrow> 'cb outcome" where
  "processPDFToWord rt file options jobId fp0 =
     (let fp1 = progress jobId (Finite 10) (enter ''processPDFToWord'' [file] fp0) in
      case file_bytes file of
        None \<Rightarrow> (Inl (arrayBuffer_error rt), fp1)
      | Some arrayBuffer \<Rightarrow>
          (let fp2 = progress jobId (Finite 30) fp1 in
           case pdfjs_getDocument rt arrayBuffer of
             Inl e \<Rightarrow> (Inl e, fp2)
           | Inr pdf \<Rightarrow>
               (case extract_pages rt jobId (length pdf) 1 pdf [] (progress jobId (Finite 50) fp2) of
                  (Inl e, fp3) \<Rightarrow> (Inl e, fp3)
                | (Inr fullText, fp3) \<Rightarrow>
                    (let wordContent = createWordDocument rt fullText;
                         fp4 = progress jobId (Finite 95) fp3;
                         buf = text_encode rt wordContent
                     in (Inr \<lparr>buffer = buf,
                              fileName = replace_first ''.pdf'' ''.html'' (file_name file),
                              mimeType = ''text/html'',
                              byteSize = length buf\<rparr>, fp4)))))"

definition compressPDF ::
  "env \<Rightarrow> File \<Rightarrow> ProcessingOptions \<Rightarrow> string \<Rightarrow> 'cb FileProcessor \<Rightarrow> 'cb outcome" where
  "compressPDF rt file options jobId fp0 =
     (let fp1 = progress jobId (Finite 10) (enter ''compressPDF'' [file] fp0) in
      case file_bytes file of
        None \<Rightarrow> (Inl (arrayBuffer_error rt), fp1)
      | Some arrayBuffer \<Rightarrow>
          (let fp2 = progress jobId (Finite 30) fp1 in
           case pdflib_load rt arrayBuffer of
             Inl e \<Rightarrow> (Inl e, fp2)
           | Inr pdf \<Rightarrow>
               (let fp3 = progress jobId (Finite 60) fp2 in
                case pdflib_save rt True pdf of
                  Inl e \<Rightarrow> (Inl e, fp3)
                | Inr compressedBytes \<Rightarrow>
                    (Inr \<lparr>buffer = compressedBytes,
                          fileName = replace_first ''.pdf'' ''_compressed.pdf'' (file_name file),
                          mimeType = ''application/pdf'',
                          byteSize = length compressedBytes\<rparr>,
                     progress jobId (Finite 90) fp3))))"

definition resizeImage ::
  "env \<Rightarrow> File \<Rightarrow> ProcessingOptions \<Rightarrow> string \<Rightarrow> 'cb FileProcessor \<Rightarrow> 'cb outcome" where
  "resizeImage rt file options jobId fp0 =
     (let fp1 = progress jobId (Finite 10) (enter ''resizeImage'' [file] fp0) in
      if \<not> canvas_getContext rt then (Inl (Error ''Error'' ''Canvas context not available''), fp1)
      else case image_load rt file of
        None \<Rightarrow> (Inl (Error ''Error'' ''Failed to load image''), fp1)
      | Some (w, h) \<Rightarrow>
          (let fp2 = progress jobId (Finite 50) fp1;
               dims = calculateNewDimensions rt w h options;
               fp3 = progress jobId (Finite 80) fp2
           in case canvas_toBlob rt file dims ''image/png'' (Finite 0.9) of
                None \<Rightarrow> (Inl (Error ''Error'' ''Failed to create blob''), fp3)
              | Some buf \<Rightarrow>
                  (Inr \<lparr>buffer = buf,
                        fileName = replace_extension ''_resized.png'' (file_name file),
                        mimeType = ''image/png'',
                        byteSize = length buf\<rparr>, fp3)))"

text \<open>\<^verbatim>\<open>options.quality || 'medium'\<close>: the empty string is falsy as well.\<close>

definition quality_or_medium :: "ProcessingOptions \<Rightarrow> string" where
  "quality_or_medium options =
     (case quality options of
        None \<Rightarrow> ''medium''
      | Some q \<Rightarrow> if q = [] then ''medium'' else q)"

definition compressImage ::
  "env \<Rightarrow> File \<Rightarrow> ProcessingOptions \<Rightarrow> string \<Rightarrow> 'cb FileProcessor \<Rightarrow> 'cb outcome" where
  "compressImage rt file options jobId fp0 =
     (let fp1 = progress jobId (Finite 10) (enter ''compressImage'' [file] fp0) in
      if \<not> canvas_getContext rt then (Inl (Error ''Error'' ''Canvas context not available''), fp1)
      else case image_load rt file of
        None \<Rightarrow> (Inl (Error ''Error'' ''Failed to load image''), fp1)
      | Some (w, h) \<Rightarrow>
          (let fp2 = progress jobId (Finite 40) fp1;
               fp3 = progress jobId (Finite 70) fp2;
               q = getCompressionQuality (quality_or_medium options)
           in case canvas_toBlob rt file (Finite (real w), Finite (real h)) ''image/jpeg'' q of
                None \<Rightarrow> (Inl (Error ''Error'' ''Failed to create blob''), fp3)
              | Some buf \<Rightarrow>
                  (Inr \<lparr>buffer = buf,
                        fileName = replace_extension ''_compressed.jpg'' (file_name file),
                        mimeType = ''image/jpeg'',
                        byteSize = length buf\<rparr>, fp3)))"

text \<open>The file loop of \<open>mergePDFs\<close>, \<open>i\<close> counting from 0; \<open>merged\<close> are the pages added
  to the new document so far; the progress is \<^verbatim>\<open>10 + ((i + 1) / totalFiles) * 80\<close>.\<close>

fun merge_files ::
  "env \<Rightarrow> string \<Rightarrow> nat \<Rightarrow> nat \<Rightarrow> File list \<Rightarrow> page list \<Rightarrow> 'cb FileProcessor
     \<Rightarrow> (jserror + page list) \<times> 'cb FileProcessor" where
  "merge_files rt jobId totalFiles i [] merged fp = (Inr merged, fp)"
| "merge_files rt jobId totalFiles i (file # files) merged fp =
     (case file_bytes file of
        None \<Rightarrow> (Inl (arrayBuffer_error rt), fp)
      | Some arrayBuffer \<Rightarrow>
          (case pdflib_load rt arrayBuffer of
             Inl e \<Rightarrow> (Inl e, fp)
           | Inr pdf \<Rightarrow>
               merge_files rt jobId totalFiles (i + 1) files (merged @ pdf)
                 (progress jobId
                    (double_add rt (Finite 10)
                       (double_mul rt
                          (double_div rt (Finite (real (i + 1))) (Finite (real totalFiles)))
                          (Finite 80)))
                    fp)))"

definition mergePDFs ::
  "env \<Rightarrow> File list \<Rightarrow> ProcessingOptions \<Rightarrow> string \<Rightarrow> 'cb FileProcessor \<Rightarrow> 'cb outcome" where
  "mergePDFs rt files options jobId fp0 =
     (let fp1 = progress jobId (Finite 10) (enter ''mergePDFs'' files fp0) in
      case merge_files rt jobId (length files) 0 files [] fp1 of
        (Inl e, fp2) \<Rightarrow> (Inl e, fp2)
      | (Inr mergedPdf, fp2) \<Rightarrow>
          (case pdflib_save rt False mergedPdf of
             Inl e \<Rightarrow> (Inl e, fp2)
           | Inr mergedBytes \<Rightarrow>
               (Inr \<lparr>buffer = mergedBytes,
                     fileName = ''merged_document.pdf'',
                     mimeType = ''application/pdf'',
                     byteSize = length mergedBytes\<rparr>, fp2)))"

subsection \<open>Dispatch and processFile\<close>

definition processFileByTool ::
  "env \<Rightarrow> File \<Rightarrow> string \<Rightarrow> ProcessingOptions \<Rightarrow> string \<Rightarrow> 'cb FileProcessor \<Rightarrow> 'cb outcome" where
  "processFileByTool rt file toolId options jobId fp0 =
     (let fp = enter ''processFileByTool'' [file] fp0 in
      if toolId = ''pdf-to-word'' then processPDFToWord rt file options jobId fp
      else if toolId = ''merge-pdf'' then mergePDFs rt [file] options jobId fp
      else if toolId = ''compress-pdf'' then compressPDF rt file options jobId fp
      else if toolId = ''image-resize'' then resizeImage rt file options jobId fp
      else if toolId = ''image-compress'' then compressImage rt file options jobId fp
      else (Inl (ProcessingError (''Tool '' @ toolId @ '' not implemented'')
                   ''TOOL_NOT_FOUND'' False (Some ''tool_processing'')), fp))"

text \<open>The \<open>catch\<close> block of \<open>processFile\<close>: every thrown value, the processor's own
  \<open>ProcessingError\<close>s included, is passed through \<open>handleProcessingError\<close>.\<close>

definition catch_block ::
  "string \<Rightarrow> string \<Rightarrow> string \<Rightarrow> jserror \<Rightarrow> 'cb FileProcessor \<Rightarrow> 'cb outcome" where
  "catch_block jobId errorId toolId e fp =
     (Inl (handleProcessingError errorId e (''tool_'' @ toolId)),
      fp\<lparr>progressTracker := removeProgress jobId (progressTracker fp)\<rparr>)"

text \<open>
  \<open>processFile\<close>. \<open>jobId\<close> is the value \<open>generateJobId()\<close> returns and \<open>errorId\<close> the value
  \<open>generateErrorId()\<close> returns if the \<open>catch\<close> block runs. The result is \<open>None\<close>, with the
  state untouched, when the returned promise never settles.
\<close>

definition processFile ::
  "env \<Rightarrow> string \<Rightarrow> string \<Rightarrow> File \<Rightarrow> string \<Rightarrow> ProcessingOptions \<Rightarrow> 'cb FileProcessor
     \<Rightarrow> (jserror + ProcessedFile) option \<times> 'cb FileProcessor" where
  "processFile rt jobId errorId file toolId options fp =
     (case validateFileForTool rt file toolId of
        None \<Rightarrow> (None, fp)
      | Some (Inl e) \<Rightarrow> map_prod Some id (catch_block jobId errorId toolId e fp)
      | Some (Inr validation) \<Rightarrow>
          if \<not> isValid validation
          then map_prod Some id
                 (catch_block jobId errorId toolId
                    (ProcessingError (join '', '' (errors validation)) ''VALIDATION_ERROR'' True
                       (Some ''file_validation'')) fp)
          else
            (case processFileByTool rt file toolId options jobId
                    (fp\<lparr>progressTracker := updateProgress jobId (Finite 0) (progressTracker fp)\<rparr>) of
               (Inl e, fp') \<Rightarrow> map_prod Some id (catch_block jobId errorId toolId e fp')
             | (Inr result, fp') \<Rightarrow>
                 (Some (Inr result),
                  fp'\<lparr>progressTracker := completeProgress jobId (progressTracker fp')\<rparr>)))"

text \<open>The \<open>case\<close> labels of the dispatcher's \<open>switch\<close>.\<close>

definition handled_tools :: "string list" where
  "handled_tools =
     [''pdf-to-word'', ''merge-pdf'', ''compress-pdf'', ''image-resize'', ''image-compress'']"

subsection \<open>A concrete runtime\<close>

text \<open>A runtime on which the definitions can be evaluated: every vendor call succeeds,
  a document has one page, an image is 1600 by 1200, \<open>formatBytes\<close> is right on the
  two size limits of the configuration table, and the arithmetic is exact on finite
  numbers (as that of doubles is wherever the exact result is a double).\<close>

fun exact :: "(real \<Rightarrow> real \<Rightarrow> real) \<Rightarrow> number \<Rightarrow> number \<Rightarrow> number" where
  "exact f (Finite x) (Finite y) = Finite (f x y)"
| "exact f a b = NaN"

fun round_half_up :: "number \<Rightarrow> number" where
  "round_half_up (Finite x) = Finite (of_int \<lfloor>x + 1 / 2\<rfloor>)"
| "round_half_up a = a"

definition sample_env :: env where
  "sample_env =
     \<lparr>formatBytes = (\<lambda>n. if n = 50 * 1024 * 1024 then ''50 MB'' else ''100 MB''),
      createWordDocument = (\<lambda>t. ''<html>'' @ t @ ''</html>''),
      undefined_read_message = ''Cannot read properties of undefined'',
      arrayBuffer_error = Error ''NotReadableError'' ''The file could not be read'',
      pdfjs_getDocument = (\<lambda>b. Inr [Inr [''Hello'', ''world'']]),
      pdflib_load = (\<lambda>b. Inr [Page (length b)]),
      pdflib_save = (\<lambda>c ps. Inr (0x25 # 0x50 # 0x44 # 0x46 # map (\<lambda>p. 0x0A) ps)),
      text_encode = map (\<lambda>c. of_nat (of_char c)),
      canvas_getContext = True,
      image_load = (\<lambda>f. Some (1600, 1200)),
      canvas_toBlob = (\<lambda>f d m q. Some [0xFF, 0xD8, 0xFF]),
      double_add = exact (+),
      double_mul = exact (*),
      double_div = exact (/),
      math_round = round_half_up\<rparr>"

text \<open>A processor with nothing registered, an options object with no property set, and
  the files used as concrete inputs below.\<close>

definition empty_processor :: "nat FileProcessor" where
  "empty_processor =
     \<lparr>progressTracker = \<lparr>progressCallbacks = Map.empty, invoked = []\<rparr>, entered = []\<rparr>"

definition no_options :: ProcessingOptions where
  "no_options =
     \<lparr>quality = None, compression = None, format = None, pages = None, additionalFiles = None\<rparr>"

definition small_pdf :: File where
  "small_pdf =
     \<lparr>file_name = ''report.pdf'', file_type = ''application/pdf'', file_size = 8,
      file_bytes = Some [0x25, 0x50, 0x44, 0x46, 0x2D, 0x31, 0x2E, 0x34]\<rparr>"

definition oversized_pdf :: File where
  "oversized_pdf =
     \<lparr>file_name = ''big.pdf'', file_type = ''application/pdf'', file_size = 200 * 1024 * 1024,
      file_bytes = Some (0x25 # 0x50 # 0x44 # 0x46 # replicate (200 * 1024 * 1024 - 4) 0)\<rparr>"

definition wildcard_file :: File where
  "wildcard_file =
     \<lparr>file_name = ''notes.bin'', file_type = ''*/*'', file_size = 3,
      file_bytes = Some [0x01, 0x02, 0x03]\<rparr>"

definition malware_exe :: File where
  "malware_exe =
     \<lparr>file_name = ''malware.exe'', file_type = ''application/pdf'', file_size = 4,
      file_bytes = Some [0x4D, 0x5A, 0x90, 0x00]\<rparr>"

section \<open>Properties\<close>

subsection \<open>Rate limiter\<close>

lemma userRequests_isAllowed_True:
  "length (validRequests now rl i) < maxRequests \<Longrightarrow>
   isAllowed now i rl = (True, rl\<lparr>requests := (requests rl)(i \<mapsto> validRequests now rl i @ [now])\<rparr>)"
  by (simp add: isAllowed_def Let_def)

lemma validRequests_all:
  "list_all (\<lambda>x. now - x < windowMs) (userRequests rl i) \<Longrightarrow> validRequests now rl i = userRequests rl i"
  by (simp add: validRequests_def list_all_iff)

lemma isAllowed_at_cap:
  "length (validRequests now rl i) \<ge> maxRequests \<Longrightarrow> isAllowed now i rl = (False, rl)"
  by (simp add: isAllowed_def Let_def)

lemma calls_below_cap:
  "userRequests rl i = xs \<Longrightarrow>
   list_all (\<lambda>x. list_all (\<lambda>u. u - x < windowMs) nows) xs \<Longrightarrow>
   within_window nows \<Longrightarrow>
   length xs + length nows \<le> maxRequests \<Longrightarrow>
   fst (isAllowed_calls nows i rl) = replicate (length nows) True \<and>
   userRequests (snd (isAllowed_calls nows i rl)) i = xs @ nows \<and>
   (\<forall>j. j \<noteq> i \<longrightarrow> requests (snd (isAllowed_calls nows i rl)) j = requests rl j)"
proof (induction nows arbitrary: rl xs)
  case Nil
  then show ?case by simp
next
  case (Cons now nows)
  have v: "validRequests now rl i = xs"
    using Cons.prems(1,2) validRequests_all[of now rl i] by (simp add: list_all_iff)
  have lt: "length (validRequests now rl i) < maxRequests"
    using v Cons.prems(4) by simp
  let ?rl = "rl\<lparr>requests := (requests rl)(i \<mapsto> xs @ [now])\<rparr>"
  have step: "isAllowed now i rl = (True, ?rl)"
    using userRequests_isAllowed_True[OF lt] v by simp
  have u: "userRequests ?rl i = xs @ [now]" by (simp add: userRequests_def)
  have a: "list_all (\<lambda>x. list_all (\<lambda>u. u - x < windowMs) nows) (xs @ [now])"
    using Cons.prems(2,3) by (simp add: list_all_iff)
  have w: "within_window nows" using Cons.prems(3) by simp
  have l: "length (xs @ [now]) + length nows \<le> maxRequests" using Cons.prems(4) by simp
  note IH = Cons.IH[OF u a w l]
  show ?case using IH step by (simp add: split_beta)
qed

lemma isAllowed_calls_append:
  "isAllowed_calls (as @ bs) i rl =
     (fst (isAllowed_calls as i rl) @ fst (isAllowed_calls bs i (snd (isAllowed_calls as i rl))),
      snd (isAllowed_calls bs i (snd (isAllowed_calls as i rl))))"
  by (induction as arbitrary: rl) (simp_all add: split_beta)

lemma within_window_append:
  "within_window (as @ bs) = (within_window as \<and> within_window bs \<and> list_all (\<lambda>x. list_all (\<lambda>u. u - x < windowMs) bs) as)"
  by (induction as) (auto simp: list_all_iff)

text \<open>
  Claim C5. Starting from an empty request history of an identifier, 51 consecutive
  calls of \<open>isAllowed\<close> whose clock readings lie within one window of 15 minutes answer
  \<open>true\<close> fifty times and then \<open>false\<close>.
\<close>

theorem isAllowed_first_50_then_reject:
  assumes empty: "userRequests rl identifier = []"
      and len: "length nows = 51"
      and win: "within_window nows"
  shows "fst (isAllowed_calls nows identifier rl) = replicate 50 True @ [False]"
proof -
  define as where "as = take 50 nows"
  define t where "t = nows ! 50"
  have split: "nows = as @ [t]"
    using len by (simp add: as_def t_def take_Suc_conv_app_nth[of 50 nows, symmetric])
  have las: "length as = 50" using len by (simp add: as_def)
  have w: "within_window as" "list_all (\<lambda>x. t - x < windowMs) as"
    using win unfolding split within_window_append by (simp_all add: list_all_iff)
  have first: "fst (isAllowed_calls as identifier rl) = replicate 50 True"
    and hist: "userRequests (snd (isAllowed_calls as identifier rl)) identifier = as"
    using calls_below_cap[OF empty _ w(1), of ] las by (simp_all add: maxRequests_def)
  let ?rl = "snd (isAllowed_calls as identifier rl)"
  have "validRequests t ?rl identifier = as"
    using validRequests_all[of t "?rl" "identifier"] hist w(2) by simp
  then have "isAllowed t identifier ?rl = (False, ?rl)"
    using isAllowed_at_cap[of t "?rl" "identifier"] las by (simp add: maxRequests_def)
  then show ?thesis
    unfolding split isAllowed_calls_append using first by (simp add: split_beta)
qed

theorem isAllowed_first_50_then_reject_witness:
  "fst (isAllowed_calls (map (\<lambda>k. 1700000000000 + 17000 * int k) [0..<51]) ''user-1''
          \<lparr>requests = Map.empty\<rparr>) = replicate 50 True @ [False]"
proof -
  have e: "userRequests \<lparr>requests = Map.empty\<rparr> ''user-1'' = []"
    by (simp add: userRequests_def)
  have l: "length (map (\<lambda>k. 1700000000000 + 17000 * int k) [0..<51]) = 51" by simp
  have w: "within_window (map (\<lambda>k. 1700000000000 + 17000 * int k) [0..<51])" by code_simp
  show ?thesis by (rule isAllowed_first_50_then_reject[OF e l w])
qed

text \<open>
  Claim C6. When the identifier already has \<open>maxRequests\<close> time stamps inside the window,
  \<open>isAllowed\<close> answers \<open>false\<close> and returns the limiter as it was; every call that
  answers \<open>false\<close> leaves the limiter as it was, and a call that answers \<open>true\<close> stores
  the time stamps still inside the window followed by the current one.
\<close>

theorem isAllowed_rejection_leaves_state:
  "(maxRequests \<le> length (validRequests now rl identifier) \<longrightarrow>
      isAllowed now identifier rl = (False, rl)) \<and>
   (\<not> fst (isAllowed now identifier rl) \<longrightarrow> snd (isAllowed now identifier rl) = rl) \<and>
   (fst (isAllowed now identifier rl) \<longrightarrow>
      requests (snd (isAllowed now identifier rl)) =
        (requests rl)(identifier \<mapsto> validRequests now rl identifier @ [now]))"
  by (simp add: isAllowed_def Let_def)

theorem isAllowed_rejection_leaves_state_witness:
  "isAllowed 1000 ''user-1'' \<lparr>requests = [''user-1'' \<mapsto> map int [0..<50]]\<rparr> =
     (False, \<lparr>requests = [''user-1'' \<mapsto> map int [0..<50]]\<rparr>) \<and>
   isAllowed 1000 ''user-1'' \<lparr>requests = [''user-1'' \<mapsto> [0, 1]]\<rparr> =
     (True, \<lparr>requests = [''user-1'' \<mapsto> [0, 1, 1000]]\<rparr>)"
proof -
  let ?full = "\<lparr>requests = [''user-1'' \<mapsto> map int [0..<50]]\<rparr>"
  let ?low = "\<lparr>requests = [''user-1'' \<mapsto> [0, 1]]\<rparr>"
  have v: "validRequests 1000 ?full ''user-1'' = map int [0..<50]"
    by (simp add: validRequests_def userRequests_def windowMs_def)
  have a: "isAllowed 1000 ''user-1'' ?full = (False, ?full)"
    using isAllowed_rejection_leaves_state[of 1000 ?full "''user-1''"] v
    by (simp add: maxRequests_def)
  have v2: "validRequests 1000 ?low ''user-1'' = [0, 1]"
    by (simp add: validRequests_def userRequests_def windowMs_def)
  have ok: "fst (isAllowed 1000 ''user-1'' ?low)"
    by (simp add: isAllowed_def Let_def v2 maxRequests_def)
  have "requests (snd (isAllowed 1000 ''user-1'' ?low)) = [''user-1'' \<mapsto> [0, 1, 1000]]"
    using isAllowed_rejection_leaves_state[of 1000 ?low "''user-1''"] ok v2 by simp
  then have b: "isAllowed 1000 ''user-1'' ?low = (True, \<lparr>requests = [''user-1'' \<mapsto> [0, 1, 1000]]\<rparr>)"
    using ok by (cases "isAllowed 1000 ''user-1'' ?low") auto
  show ?thesis using a b by simp
qed

subsection \<open>Progress tracker\<close>

lemma clamp_progress_Finite:
  "clamp_progress (Finite r) = Finite (if r < 0 then 0 else if 100 < r then 100 else r)"
  by (simp add: clamp_progress_def)

lemma clamp_progress_percentage: "p \<noteq> NaN \<Longrightarrow> percentage (clamp_progress p)"
  by (cases p) (simp_all add: clamp_progress_def)

text \<open>
  Claim C7, as stated, fails at \<open>NaN\<close>: \<open>Math.max(0, NaN)\<close> and \<open>Math.min(100, NaN)\<close>
  are \<open>NaN\<close>, so a registered callback receives \<open>NaN\<close>, which is no number from 0 to
  100.
\<close>

theorem updateProgress_NaN_counterexample:
  "updateProgress ''job-1'' NaN \<lparr>progressCallbacks = [''job-1'' \<mapsto> (7::nat)], invoked = []\<rparr> =
     \<lparr>progressCallbacks = [''job-1'' \<mapsto> 7], invoked = [(7, NaN)]\<rparr> \<and>
   \<not> percentage NaN"
  by (simp add: updateProgress_def clamp_progress_def)

text \<open>
  Claim C7, amended. With a callback registered for the job and a progress other than
  \<open>NaN\<close>, \<open>updateProgress\<close> calls the callback once, with the progress clamped into the
  interval from 0 to 100: a finite progress below 0 is delivered as 0, one above 100 as
  100, any other unchanged (150 is delivered as 100, -10 as 0), and the infinities are
  delivered as 100 and 0. Without a registered callback \<open>updateProgress\<close> changes
  nothing, whatever the progress.
\<close>

theorem updateProgress_clamps_or_noop:
  "(progressCallbacks pt jobId = Some callback \<longrightarrow>
      updateProgress jobId (Finite r) pt =
        pt\<lparr>invoked := invoked pt @
             [(callback, Finite (if r < 0 then 0 else if 100 < r then 100 else r))]\<rparr> \<and>
      updateProgress jobId PosInf pt = pt\<lparr>invoked := invoked pt @ [(callback, Finite 100)]\<rparr> \<and>
      updateProgress jobId NegInf pt = pt\<lparr>invoked := invoked pt @ [(callback, Finite 0)]\<rparr> \<and>
      updateProgress jobId (Finite 150) pt =
        pt\<lparr>invoked := invoked pt @ [(callback, Finite 100)]\<rparr> \<and>
      updateProgress jobId (Finite (-10)) pt =
        pt\<lparr>invoked := invoked pt @ [(callback, Finite 0)]\<rparr> \<and>
      (p \<noteq> NaN \<longrightarrow>
         updateProgress jobId p pt = pt\<lparr>invoked := invoked pt @ [(callback, clamp_progress p)]\<rparr> \<and>
         percentage (clamp_progress p))) \<and>
   (progressCallbacks pt jobId = None \<longrightarrow> updateProgress jobId p pt = pt)"
  by (simp add: updateProgress_def clamp_progress_Finite clamp_progress_percentage)
     (simp add: clamp_progress_def)

theorem updateProgress_clamps_or_noop_witness:
  "updateProgress ''job-1'' (Finite 150)
       \<lparr>progressCallbacks = [''job-1'' \<mapsto> (7::nat)], invoked = []\<rparr> =
     \<lparr>progressCallbacks = [''job-1'' \<mapsto> 7], invoked = [(7, Finite 100)]\<rparr> \<and>
   updateProgress ''job-1'' (Finite (-10))
       \<lparr>progressCallbacks = [''job-1'' \<mapsto> (7::nat)], invoked = []\<rparr> =
     \<lparr>progressCallbacks = [''job-1'' \<mapsto> 7], invoked = [(7, Finite 0)]\<rparr> \<and>
   updateProgress ''job-1'' (Finite 42.5)
       \<lparr>progressCallbacks = [''job-1'' \<mapsto> (7::nat)], invoked = []\<rparr> =
     \<lparr>progressCallbacks = [''job-1'' \<mapsto> 7], invoked = [(7, Finite 42.5)]\<rparr> \<and>
   updateProgress ''job-2'' (Finite 150)
       \<lparr>progressCallbacks = [''job-1'' \<mapsto> (7::nat)], invoked = []\<rparr> =
     \<lparr>progressCallbacks = [''job-1'' \<mapsto> 7], invoked = []\<rparr> \<and>
   updateProgress ''job-2'' NaN
       \<lparr>progressCallbacks = [''job-1'' \<mapsto> (7::nat)], invoked = []\<rparr> =
     \<lparr>progressCallbacks = [''job-1'' \<mapsto> 7], invoked = []\<rparr>"
  using updateProgress_clamps_or_noop[of
          "\<lparr>progressCallbacks = [''job-1'' \<mapsto> (7::nat)], invoked = []\<rparr>" "''job-1''" 7 "42.5"
          "Finite 42.5"]
        updateProgress_clamps_or_noop[of
          "\<lparr>progressCallbacks = [''job-1'' \<mapsto> (7::nat)], invoked = []\<rparr>" "''job-2''" 7 0
          "Finite 150"]
        updateProgress_clamps_or_noop[of
          "\<lparr>progressCallbacks = [''job-1'' \<mapsto> (7::nat)], invoked = []\<rparr>" "''job-2''" 7 0
          NaN]
  by simp

subsection \<open>Validator\<close>

lemma oversized_file_has_errors:
  "file_size file > limit \<Longrightarrow> errors (validateFile rt file allowed limit) \<noteq> []"
  by (simp add: validateFile_def Let_def)

lemma dangerous_name_suffix:
  assumes "name = stem @ ext" and "map ascii_upper ext \<in> set (map (map ascii_upper) dangerousPatterns)"
  shows "dangerous_name name"
proof -
  from assms(2) obtain pat where pat: "pat \<in> set dangerousPatterns" "map ascii_upper ext = map ascii_upper pat"
    by auto
  then have len: "length ext = length pat" by (metis length_map)
  have "test_extension pat name"
    using assms(1) pat(2) len by (simp add: test_extension_def)
  with pat(1) show ?thesis by (auto simp: dangerous_name_def list_ex_iff)
qed

text \<open>
  Claim C8. A file whose name ends in \<open>.exe\<close>, \<open>.bat\<close>, \<open>.cmd\<close> or \<open>.scr\<close>, in any
  mix of upper and lower case, is invalid for \<open>validateFile\<close> whatever its declared
  type, the allow-list and the size limit are.
\<close>

theorem validateFile_rejects_dangerous_name:
  assumes "file_name file = stem @ ext"
      and "map ascii_upper ext \<in> {''.EXE'', ''.BAT'', ''.CMD'', ''.SCR''}"
  shows "\<not> isValid (validateFile rt file allowed limit) \<and>
         ''File type not allowed for security reasons''
           \<in> set (errors (validateFile rt file allowed limit))"
proof -
  have "map ascii_upper ext \<in> set (map (map ascii_upper) dangerousPatterns)"
    using assms(2) by (auto simp: dangerousPatterns_def ascii_upper_def)
  then have "dangerous_name (file_name file)"
    using assms(1) dangerous_name_suffix by blast
  then show ?thesis by (simp add: validateFile_def Let_def)
qed

theorem validateFile_rejects_dangerous_name_witness:
  "\<not> isValid (validateFile sample_env malware_exe [''application/pdf''] (100 * 1024 * 1024)) \<and>
   errors (validateFile sample_env malware_exe [''application/pdf''] (100 * 1024 * 1024)) =
     [''File type not allowed for security reasons'']"
proof -
  have n: "file_name malware_exe = ''malware'' @ ''.exe''" by (simp add: malware_exe_def)
  have x: "map ascii_upper ''.exe'' \<in> {''.EXE'', ''.BAT'', ''.CMD'', ''.SCR''}"
    by (simp add: ascii_upper_def)
  note t = validateFile_rejects_dangerous_name[OF n x, of sample_env "[''application/pdf'']"
             "100 * 1024 * 1024"]
  have "errors (validateFile sample_env malware_exe [''application/pdf''] (100 * 1024 * 1024)) =
     [''File type not allowed for security reasons'']"
    by (simp add: validateFile_def Let_def malware_exe_def dangerous_name_def
          dangerousPatterns_def test_extension_def ascii_upper_def)
  with t show ?thesis by simp
qed


subsection \<open>processFile: validation failures\<close>

lemma validation_isValid_iff:
  "validateFileForTool rt file toolId = Some (Inr v) \<Longrightarrow> isValid v = (errors v = [])"
  by (auto simp: validateFileForTool_def validateFile_def Let_def
           split: option.splits bool.splits js_lookup.splits)

lemma validation_throws_TypeError:
  "validateFileForTool rt file toolId = Some (Inl e) \<Longrightarrow>
   e = Error ''TypeError'' (undefined_read_message rt)"
  by (auto simp: validateFileForTool_def Let_def
           split: option.splits bool.splits js_lookup.splits)

lemma processFile_invalid:
  "validateFileForTool rt file toolId = Some (Inr v) \<Longrightarrow> \<not> isValid v \<Longrightarrow>
   processFile rt jobId errorId file toolId options fp =
     (Some (Inl (handleProcessingError errorId
                   (ProcessingError (join '', '' (errors v)) ''VALIDATION_ERROR'' True
                      (Some ''file_validation''))
                   (''tool_'' @ toolId))),
      fp\<lparr>progressTracker := removeProgress jobId (progressTracker fp)\<rparr>)"
  by (simp add: processFile_def catch_block_def)

lemma handle_ProcessingError:
  "handleProcessingError errorId (ProcessingError m c r ctx) context =
     ProcessingError (getUserFriendlyMessage (ProcessingError m c r ctx)) errorId True (Some context)"
  by (simp add: handleProcessingError_def isRecoverable_def)

lemma handle_Error:
  "handleProcessingError errorId (Error n m) context =
     ProcessingError (getUserFriendlyMessage (Error n m)) errorId
       (n \<notin> {''QuotaExceededError'', ''SecurityError'', ''NotSupportedError''}) (Some context)"
  by (simp add: handleProcessingError_def isRecoverable_def)

lemma generated_id_length: "generated_id s \<Longrightarrow> length s \<le> 9"
  by (simp add: generated_id_def)

lemmas validation_eval =
  validateFileForTool_def validateFileContent_def checkMagicNumbers_def
  object_get_def objectPrototypeKeys_def signatures_def getToolConfig_def configs_def
  fallbackConfig_def validateFile_def dangerous_name_def dangerousPatterns_def
  test_extension_def ascii_upper_def Let_def

lemma oversized_validation:
  "validateFileForTool sample_env oversized_pdf ''compress-pdf'' =
     Some (Inr \<lparr>isValid = False, errors = [''File size exceeds 100 MB limit'']\<rparr>)"
  by (simp add: validation_eval oversized_pdf_def sample_env_def)

lemma wildcard_validation:
  "validateFileForTool sample_env wildcard_file ''unknown-tool-xyz'' =
     Some (Inr \<lparr>isValid = True, errors = []\<rparr>)"
  by (simp add: validation_eval wildcard_file_def sample_env_def)

lemma small_pdf_unknown_validation:
  "validateFileForTool sample_env small_pdf ''unknown-tool-xyz'' =
     Some (Inr \<lparr>isValid = False, errors = [''File type application/pdf not supported'']\<rparr>)"
  by (simp add: validation_eval small_pdf_def sample_env_def)

lemma small_pdf_compress_validation:
  "validateFileForTool sample_env small_pdf ''compress-pdf'' =
     Some (Inr \<lparr>isValid = True, errors = []\<rparr>)"
  by (simp add: validation_eval small_pdf_def sample_env_def)

text \<open>
  Claim C1. The specification has a call whose validation produces errors fail with the
  code \<open>VALIDATION_ERROR\<close> and \<open>recoverable = true\<close>. The error with that code is
  thrown inside the \<open>try\<close> block, is caught by the \<open>catch\<close> block of the same function
  and is replaced there by the result of \<open>handleProcessingError\<close>: what the caller gets
  is recoverable, but its code is the generated error identifier, which never is
  \<open>VALIDATION_ERROR\<close>, and its context is that of the tool.
\<close>

theorem processFile_validation_error_code:
  assumes "validateFileForTool rt file toolId = Some (Inr v)"
      and "errors v \<noteq> []"
      and "generated_id errorId"
  shows "\<exists>msg. fst (processFile rt jobId errorId file toolId options fp) =
           Some (Inl (ProcessingError msg errorId True (Some (''tool_'' @ toolId)))) \<and>
         errorId \<noteq> ''VALIDATION_ERROR''"
proof -
  have nv: "\<not> isValid v" using assms(1,2) validation_isValid_iff by blast
  have "fst (processFile rt jobId errorId file toolId options fp) =
      Some (Inl (ProcessingError
        (getUserFriendlyMessage (ProcessingError (join '', '' (errors v)) ''VALIDATION_ERROR'' True (Some ''file_validation'')))
        errorId True (Some (''tool_'' @ toolId))))"
    unfolding processFile_invalid[OF assms(1) nv] handle_ProcessingError by simp
  moreover have "errorId \<noteq> ''VALIDATION_ERROR''"
    using generated_id_length[OF assms(3)] by auto
  ultimately show ?thesis by blast
qed

theorem processFile_validation_error_code_witness:
  "fst (processFile sample_env ''k3j9x2m1q'' ''7f3k2p9xq'' oversized_pdf ''compress-pdf''
          no_options empty_processor) =
     Some (Inl (ProcessingError ''An unexpected error occurred. Please try again.''
                  ''7f3k2p9xq'' True (Some ''tool_compress-pdf'')))"
proof -
  have g: "generated_id ''7f3k2p9xq''" by (simp add: generated_id_def)
  have e: "errors \<lparr>isValid = False, errors = [''File size exceeds 100 MB limit'']\<rparr> \<noteq> []"
    by simp
  from processFile_validation_error_code[OF oversized_validation e g,
         of "''k3j9x2m1q''" no_options empty_processor]
  obtain msg where m: "fst (processFile sample_env ''k3j9x2m1q'' ''7f3k2p9xq'' oversized_pdf
          ''compress-pdf'' no_options empty_processor) =
     Some (Inl (ProcessingError msg ''7f3k2p9xq'' True (Some ''tool_compress-pdf'')))"
    by auto
  have "msg = ''An unexpected error occurred. Please try again.''"
    using m by (simp add: processFile_def oversized_validation catch_block_def
                  handleProcessingError_def getUserFriendlyMessage_def)
  with m show ?thesis by simp
qed

text \<open>
  Claim C4. When the content check fails, or the content check passes and the check
  against the tool's configuration collects an error, \<open>processFile\<close> fails and neither
  the dispatcher nor any tool routine has been entered.
\<close>

theorem validation_failure_reaches_no_routine:
  assumes "validateFileContent file = Some False \<or>
           (validateFileContent file = Some True \<and> getToolConfig toolId = Own c \<and>
            errors (validateFile rt file (allowedTypes c) (maxSize c)) \<noteq> [])"
  shows "entered (snd (processFile rt jobId errorId file toolId options fp)) = entered fp \<and>
         (\<exists>e. fst (processFile rt jobId errorId file toolId options fp) = Some (Inl e))"
proof -
  obtain v where v: "validateFileForTool rt file toolId = Some (Inr v)" and e: "errors v \<noteq> []"
    using assms by (auto simp: validateFileForTool_def Let_def)
  have nv: "\<not> isValid v" using v e validation_isValid_iff by blast
  show ?thesis unfolding processFile_invalid[OF v nv] by simp
qed

theorem validation_failure_reaches_no_routine_witness:
  "entered (snd (processFile sample_env ''k3j9x2m1q'' ''7f3k2p9xq'' oversized_pdf
                   ''compress-pdf'' no_options empty_processor)) = [] \<and>
   fst (processFile sample_env ''k3j9x2m1q'' ''7f3k2p9xq'' oversized_pdf
          ''compress-pdf'' no_options empty_processor) \<noteq> None"
proof -
  let ?c = "\<lparr>allowedTypes = [''application/pdf''], maxSize = 100 * 1024 * 1024\<rparr>"
  have h: "validateFileContent oversized_pdf = Some False \<or>
           (validateFileContent oversized_pdf = Some True \<and>
            getToolConfig ''compress-pdf'' = Own ?c \<and>
            errors (validateFile sample_env oversized_pdf (allowedTypes ?c) (maxSize ?c)) \<noteq> [])"
    by (simp add: validation_eval oversized_pdf_def)
  from validation_failure_reaches_no_routine[OF h, of "''k3j9x2m1q''" "''7f3k2p9xq''"
         no_options empty_processor]
  show ?thesis by (auto simp: empty_processor_def)
qed

subsection \<open>processFile: unknown tools\<close>

lemma processFileByTool_unknown:
  "toolId \<notin> set handled_tools \<Longrightarrow>
   processFileByTool rt file toolId options jobId fp =
     (Inl (ProcessingError (''Tool '' @ toolId @ '' not implemented'') ''TOOL_NOT_FOUND'' False
             (Some ''tool_processing'')),
      enter ''processFileByTool'' [file] fp)"
  by (auto simp: processFileByTool_def handled_tools_def Let_def)

text \<open>
  Claim C2. The specification has a call with a tool identifier that the dispatcher does
  not handle fail with the code \<open>TOOL_NOT_FOUND\<close> and \<open>recoverable = false\<close>. Whatever
  such a call throws (the validation error, the \<open>TypeError\<close> of the validator, or the
  dispatcher's \<open>TOOL_NOT_FOUND\<close> error) passes through the \<open>catch\<close> block: if the call
  settles, the caller gets an error that is recoverable and whose code is the generated
  error identifier.
\<close>

theorem unknown_tool_error_code:
  assumes unknown: "toolId \<notin> set handled_tools"
      and gid: "generated_id errorId"
  shows "(fst (processFile rt jobId errorId file toolId options fp) = None \<or>
          (\<exists>msg. fst (processFile rt jobId errorId file toolId options fp) =
             Some (Inl (ProcessingError msg errorId True (Some (''tool_'' @ toolId)))))) \<and>
         errorId \<noteq> ''TOOL_NOT_FOUND''"
proof -
  have id: "errorId \<noteq> ''TOOL_NOT_FOUND''"
    using generated_id_length[OF gid] by auto
  have "fst (processFile rt jobId errorId file toolId options fp) = None \<or>
        (\<exists>msg. fst (processFile rt jobId errorId file toolId options fp) =
           Some (Inl (ProcessingError msg errorId True (Some (''tool_'' @ toolId)))))"
  proof (cases "validateFileForTool rt file toolId")
    case None
    then show ?thesis by (simp add: processFile_def)
  next
    case (Some res)
    show ?thesis
    proof (cases res)
      case (Inl e)
      then have "e = Error ''TypeError'' (undefined_read_message rt)"
        using Some validation_throws_TypeError by blast
      then show ?thesis using Some Inl
        by (simp add: processFile_def catch_block_def handle_Error)
    next
      case (Inr v)
      show ?thesis
      proof (cases "isValid v")
        case False
        show ?thesis
          unfolding processFile_invalid[OF Some[unfolded Inr] False] handle_ProcessingError
          by simp
      next
        case True
        then show ?thesis using Some Inr
          by (simp add: processFile_def processFileByTool_unknown[OF unknown]
                catch_block_def handle_ProcessingError)
      qed
    qed
  qed
  with id show ?thesis by blast
qed

theorem unknown_tool_error_code_witness:
  "processFile sample_env ''k3j9x2m1q'' ''7f3k2p9xq'' wildcard_file ''unknown-tool-xyz''
     no_options empty_processor =
     (Some (Inl (ProcessingError ''An unexpected error occurred. Please try again.''
                   ''7f3k2p9xq'' True (Some ''tool_unknown-tool-xyz''))),
      empty_processor\<lparr>entered := [(''processFileByTool'', [wildcard_file])]\<rparr>)"
proof -
  have u: "''unknown-tool-xyz'' \<notin> set handled_tools" by (simp add: handled_tools_def)
  have g: "generated_id ''7f3k2p9xq''" by (simp add: generated_id_def)
  note t = unknown_tool_error_code[OF u g, of sample_env "''k3j9x2m1q''" wildcard_file
             no_options empty_processor]
  have "processFile sample_env ''k3j9x2m1q'' ''7f3k2p9xq'' wildcard_file ''unknown-tool-xyz''
     no_options empty_processor =
     (Some (Inl (ProcessingError ''An unexpected error occurred. Please try again.''
                   ''7f3k2p9xq'' True (Some ''tool_unknown-tool-xyz''))),
      empty_processor\<lparr>entered := [(''processFileByTool'', [wildcard_file])]\<rparr>)"
    by (simp add: processFile_def wildcard_validation processFileByTool_unknown[OF u]
          catch_block_def handleProcessingError_def getUserFriendlyMessage_def
          isRecoverable_def empty_processor_def enter_def updateProgress_def
          removeProgress_def)
  with t show ?thesis by simp
qed

text \<open>What the lookup in the configuration table gives for a tool identifier that is
  no key of the table.\<close>

lemma getToolConfig_absent:
  "toolId \<notin> set (map fst configs) \<Longrightarrow>
   getToolConfig toolId =
     (if toolId \<in> set objectPrototypeKeys then Inherited else Own fallbackConfig)"
proof -
  assume "toolId \<notin> set (map fst configs)"
  then have "map_of configs toolId = None" by (simp add: map_of_eq_None_iff)
  then show ?thesis by (simp add: getToolConfig_def object_get_def)
qed

text \<open>The part of claim C9 that the code does keep: for a tool identifier that is no key
  of the table and a file whose declared type is not the literal \<open>*/*\<close>, the dispatcher
  is never entered and the call never succeeds.\<close>

lemma absent_tool_never_dispatched:
  assumes t: "toolId \<notin> set (map fst configs)"
      and f: "file_type file \<noteq> ''*/*''"
  shows "entered (snd (processFile rt jobId errorId file toolId options fp)) = entered fp \<and>
         (fst (processFile rt jobId errorId file toolId options fp) = None \<or>
          (\<exists>e. fst (processFile rt jobId errorId file toolId options fp) = Some (Inl e)))"
proof (cases "validateFileForTool rt file toolId")
  case None
  then show ?thesis by (simp add: processFile_def)
next
  case (Some res)
  show ?thesis
  proof (cases res)
    case (Inl e)
    then show ?thesis using Some by (simp add: processFile_def catch_block_def)
  next
    case (Inr v)
    have "errors (validateFile rt file (allowedTypes fallbackConfig) (maxSize fallbackConfig)) \<noteq> []"
      using f by (simp add: validateFile_def fallbackConfig_def Let_def)
    then have "errors v \<noteq> []"
      using Some Inr getToolConfig_absent[OF t]
      by (auto simp: validateFileForTool_def Let_def
               split: option.splits bool.splits if_splits)
    then have nv: "\<not> isValid v" using Some Inr validation_isValid_iff by blast
    show ?thesis unfolding processFile_invalid[OF Some[unfolded Inr] nv] by simp
  qed
qed

text \<open>
  Claim C9. The specification has every tool identifier that is absent from the
  configuration table get the fallback configuration (\<open>*/*\<close>, 100 MB), and every call
  with such an identifier and a file whose declared type is not the literal \<open>*/*\<close> fail
  at validation. The tables are object literals read with \<open>table[key]\<close>, and the read
  also finds what every object inherits. For the tool identifier \<open>constructor\<close>, no key
  of the table, the configuration is the inherited member and not the fallback:
  \<open>validateFile\<close> throws a \<open>TypeError\<close> at \<open>allowedTypes.includes\<close>. For an unknown tool
  and a readable file whose declared type is \<open>constructor\<close>, \<open>checkMagicNumbers\<close> throws
  inside the reader's handler, against its own comment (unknown type, allow), and the
  call never settles.
\<close>

theorem inherited_names_break_fallback:
  "''constructor'' \<notin> set (map fst configs) \<and>
   getToolConfig ''constructor'' = Inherited \<and>
   getToolConfig ''constructor'' \<noteq> Own fallbackConfig \<and>
   processFile sample_env ''k3j9x2m1q'' ''7f3k2p9xq'' small_pdf ''constructor'' no_options
     empty_processor =
     (Some (Inl (ProcessingError ''An unexpected error occurred. Please try again.''
                   ''7f3k2p9xq'' True (Some ''tool_constructor''))),
      empty_processor) \<and>
   ''unknown-tool-xyz'' \<notin> set (map fst configs) \<and>
   file_type (small_pdf\<lparr>file_type := ''constructor''\<rparr>) \<noteq> ''*/*'' \<and>
   fst (processFile sample_env ''k3j9x2m1q'' ''7f3k2p9xq''
          (small_pdf\<lparr>file_type := ''constructor''\<rparr>) ''unknown-tool-xyz'' no_options
          empty_processor) = None"
proof -
  have v: "validateFileForTool sample_env small_pdf ''constructor'' =
             Some (Inl (Error ''TypeError'' ''Cannot read properties of undefined''))"
    by (simp add: validation_eval small_pdf_def sample_env_def)
  have a: "processFile sample_env ''k3j9x2m1q'' ''7f3k2p9xq'' small_pdf ''constructor'' no_options
     empty_processor =
     (Some (Inl (ProcessingError ''An unexpected error occurred. Please try again.''
                   ''7f3k2p9xq'' True (Some ''tool_constructor''))),
      empty_processor)"
    unfolding processFile_def v
    by (simp add: catch_block_def handleProcessingError_def getUserFriendlyMessage_def
          isRecoverable_def empty_processor_def removeProgress_def)
  have b: "fst (processFile sample_env ''k3j9x2m1q'' ''7f3k2p9xq''
          (small_pdf\<lparr>file_type := ''constructor''\<rparr>) ''unknown-tool-xyz'' no_options
          empty_processor) = None"
    by (simp add: processFile_def validation_eval small_pdf_def)
  show ?thesis
    using a b by (simp add: configs_def getToolConfig_def object_get_def objectPrototypeKeys_def)
qed

subsection \<open>processFile: the merge tool\<close>

lemma progressTracker_enter: "progressTracker (enter m fs fp) = progressTracker fp"
  by (simp add: enter_def)

lemma entered_enter: "entered (enter m fs fp) = entered fp @ [(m, fs)]"
  by (simp add: enter_def)

lemma entered_progress: "entered (progress jobId n fp) = entered fp"
  by (simp add: progress_def)

lemma merge_files_entered:
  "entered (snd (merge_files rt jobId tot i fs merged fp)) = entered fp"
  by (induction fs arbitrary: i merged fp)
     (simp_all add: entered_progress split: sum.splits option.splits)

lemma mergePDFs_entered:
  "entered (snd (mergePDFs rt files options jobId fp)) = entered fp @ [(''mergePDFs'', files)]"
proof -
  let ?fp1 = "progress jobId (Finite 10) (enter ''mergePDFs'' files fp)"
  have e1: "entered ?fp1 = entered fp @ [(''mergePDFs'', files)]"
    by (simp add: entered_progress entered_enter)
  have "entered (snd (mergePDFs rt files options jobId fp)) =
        entered (snd (merge_files rt jobId (length files) 0 files [] ?fp1))"
    by (simp add: mergePDFs_def Let_def split: prod.splits sum.splits)
  then show ?thesis by (simp add: merge_files_entered e1)
qed

lemma processFileByTool_merge_options:
  "processFileByTool rt file ''merge-pdf'' (options\<lparr>additionalFiles := extra\<rparr>) jobId fp =
   processFileByTool rt file ''merge-pdf'' options jobId fp"
  by (simp add: processFileByTool_def mergePDFs_def)

text \<open>
  Claim C3. The specification has the merge routine receive the primary file together
  with the files of \<open>options.additionalFiles\<close>. The dispatcher calls
  \<open>mergePDFs([file], options, jobId)\<close> and \<open>mergePDFs\<close> never reads \<open>options\<close>: the result
  and the final state of a \<open>merge-pdf\<close> call do not depend on \<open>additionalFiles\<close>, and
  the routine, when it is reached, is given the primary file alone.
\<close>

theorem merge_ignores_additionalFiles:
  "processFile rt jobId errorId file ''merge-pdf'' (options\<lparr>additionalFiles := extra\<rparr>) fp =
     processFile rt jobId errorId file ''merge-pdf'' options fp \<and>
   entered (snd (processFile rt jobId errorId file ''merge-pdf'' options fp))
     \<in> {entered fp,
        entered fp @ [(''processFileByTool'', [file]), (''mergePDFs'', [file])]}"
proof -
  have a: "processFile rt jobId errorId file ''merge-pdf'' (options\<lparr>additionalFiles := extra\<rparr>) fp =
     processFile rt jobId errorId file ''merge-pdf'' options fp"
    unfolding processFile_def processFileByTool_merge_options by (rule refl)
  have d: "\<And>fp0. entered (snd (processFileByTool rt file ''merge-pdf'' options jobId fp0)) =
             entered fp0 @ [(''processFileByTool'', [file]), (''mergePDFs'', [file])]"
    by (simp add: processFileByTool_def mergePDFs_entered entered_enter)
  have b: "entered (snd (processFile rt jobId errorId file ''merge-pdf'' options fp))
     \<in> {entered fp, entered fp @ [(''processFileByTool'', [file]), (''mergePDFs'', [file])]}"
  proof (cases "validateFileForTool rt file ''merge-pdf''")
    case None
    then show ?thesis by (simp add: processFile_def)
  next
    case (Some res)
    show ?thesis
    proof (cases res)
      case (Inl e)
      then show ?thesis using Some by (simp add: processFile_def catch_block_def)
    next
      case (Inr v)
      show ?thesis
      proof (cases "isValid v")
        case False
        then show ?thesis using Some Inr by (simp add: processFile_def catch_block_def)
      next
        case True
        let ?fp0 = "fp\<lparr>progressTracker := updateProgress jobId (Finite 0) (progressTracker fp)\<rparr>"
        obtain r s where x: "processFileByTool rt file ''merge-pdf'' options jobId ?fp0 = (r, s)"
          by (cases "processFileByTool rt file ''merge-pdf'' options jobId ?fp0")
        have s: "entered s = entered fp @ [(''processFileByTool'', [file]), (''mergePDFs'', [file])]"
          using d[of ?fp0] x by simp
        show ?thesis using Some Inr True x s
          by (cases r) (simp_all add: processFile_def catch_block_def)
      qed
    qed
  qed
  from a b show ?thesis by blast
qed

lemma small_pdf_merge_validation:
  "validateFileForTool sample_env small_pdf ''merge-pdf'' =
     Some (Inr \<lparr>isValid = True, errors = []\<rparr>)"
  by (simp add: validation_eval small_pdf_def sample_env_def)

theorem merge_ignores_additionalFiles_witness:
  "processFile sample_env ''k3j9x2m1q'' ''7f3k2p9xq'' small_pdf ''merge-pdf''
     (no_options\<lparr>additionalFiles := Some [small_pdf\<lparr>file_name := ''appendix.pdf''\<rparr>]\<rparr>)
     empty_processor =
   (Some (Inr \<lparr>buffer = [0x25, 0x50, 0x44, 0x46, 0x0A], fileName = ''merged_document.pdf'',
               mimeType = ''application/pdf'', byteSize = 5\<rparr>),
    empty_processor\<lparr>entered := [(''processFileByTool'', [small_pdf]), (''mergePDFs'', [small_pdf])]\<rparr>)"
proof -
  have "processFile sample_env ''k3j9x2m1q'' ''7f3k2p9xq'' small_pdf ''merge-pdf'' no_options
          empty_processor =
   (Some (Inr \<lparr>buffer = [0x25, 0x50, 0x44, 0x46, 0x0A], fileName = ''merged_document.pdf'',
               mimeType = ''application/pdf'', byteSize = 5\<rparr>),
    empty_processor\<lparr>entered := [(''processFileByTool'', [small_pdf]), (''mergePDFs'', [small_pdf])]\<rparr>)"
    unfolding processFile_def small_pdf_merge_validation
    by (simp add: processFileByTool_def mergePDFs_def Let_def progress_def enter_def
          updateProgress_def completeProgress_def removeProgress_def empty_processor_def
          small_pdf_def sample_env_def)
  then show ?thesis
    using merge_ignores_additionalFiles[of sample_env "''k3j9x2m1q''" "''7f3k2p9xq''" small_pdf
            "Some [small_pdf\<lparr>file_name := ''appendix.pdf''\<rparr>]" no_options empty_processor]
    by simp
qed


subsection \<open>processFile: the tracker\<close>

lemma progress_unregistered:
  "progressCallbacks (progressTracker fp) jobId = None \<Longrightarrow> progress jobId n fp = fp"
  by (simp add: progress_def updateProgress_def)

lemma updateProgress_unregistered:
  "progressCallbacks pt jobId = None \<Longrightarrow> updateProgress jobId n pt = pt"
  by (simp add: updateProgress_def)

lemma removeProgress_unregistered:
  "progressCallbacks pt jobId = None \<Longrightarrow> removeProgress jobId pt = pt"
  by (simp add: removeProgress_def fun_upd_idem)

lemma extract_pages_unregistered:
  "progressCallbacks (progressTracker fp) jobId = None \<Longrightarrow>
   snd (extract_pages rt jobId tot i ps acc fp) = fp"
  by (induction ps arbitrary: i acc) (simp_all add: progress_unregistered split: sum.splits)

lemma merge_files_unregistered:
  "progressCallbacks (progressTracker fp) jobId = None \<Longrightarrow>
   snd (merge_files rt jobId tot i fs merged fp) = fp"
  by (induction fs arbitrary: i merged)
     (simp_all add: progress_unregistered split: sum.splits option.splits)

lemma processPDFToWord_unregistered:
  assumes u: "progressCallbacks (progressTracker fp) jobId = None"
  shows "progressTracker (snd (processPDFToWord rt file options jobId fp)) = progressTracker fp"
proof -
  let ?fp = "enter ''processPDFToWord'' [file] fp"
  have u': "progressCallbacks (progressTracker ?fp) jobId = None"
    using u by (simp add: progressTracker_enter)
  note p = progress_unregistered[OF u']
  have "snd (processPDFToWord rt file options jobId fp) = ?fp"
  proof (cases "file_bytes file")
    case None
    then show ?thesis by (simp add: processPDFToWord_def Let_def p)
  next
    case (Some a)
    show ?thesis
    proof (cases "pdfjs_getDocument rt a")
      case (Inl e)
      then show ?thesis using Some by (simp add: processPDFToWord_def Let_def p)
    next
      case (Inr pdf)
      obtain r s where x: "extract_pages rt jobId (length pdf) 1 pdf [] ?fp = (r, s)"
        by (cases "extract_pages rt jobId (length pdf) 1 pdf [] ?fp")
      have s: "s = ?fp" using extract_pages_unregistered[OF u', of rt "length pdf" 1 pdf "[]"] x by simp
      show ?thesis using Some Inr x s
        by (cases r) (simp_all add: processPDFToWord_def Let_def p)
    qed
  qed
  then show ?thesis by (simp add: progressTracker_enter)
qed

lemma compressPDF_unregistered:
  assumes u: "progressCallbacks (progressTracker fp) jobId = None"
  shows "progressTracker (snd (compressPDF rt file options jobId fp)) = progressTracker fp"
proof -
  let ?fp = "enter ''compressPDF'' [file] fp"
  have u': "progressCallbacks (progressTracker ?fp) jobId = None"
    using u by (simp add: progressTracker_enter)
  note p = progress_unregistered[OF u']
  have "snd (compressPDF rt file options jobId fp) = ?fp"
  proof (cases "file_bytes file")
    case None
    then show ?thesis by (simp add: compressPDF_def Let_def p)
  next
    case (Some a)
    show ?thesis
    proof (cases "pdflib_load rt a")
      case (Inl e)
      then show ?thesis using Some by (simp add: compressPDF_def Let_def p)
    next
      case (Inr pdf)
      then show ?thesis using Some
        by (cases "pdflib_save rt True pdf") (simp_all add: compressPDF_def Let_def p)
    qed
  qed
  then show ?thesis by (simp add: progressTracker_enter)
qed

lemma resizeImage_unregistered:
  assumes u: "progressCallbacks (progressTracker fp) jobId = None"
  shows "progressTracker (snd (resizeImage rt file options jobId fp)) = progressTracker fp"
proof -
  let ?fp = "enter ''resizeImage'' [file] fp"
  have u': "progressCallbacks (progressTracker ?fp) jobId = None"
    using u by (simp add: progressTracker_enter)
  note p = progress_unregistered[OF u']
  have "snd (resizeImage rt file options jobId fp) = ?fp"
  proof (cases "image_load rt file")
    case None
    then show ?thesis by (simp add: resizeImage_def Let_def p)
  next
    case (Some wh)
    obtain w h where wh: "wh = (w, h)" by (cases wh)
    show ?thesis using Some wh
      by (cases "canvas_toBlob rt file (calculateNewDimensions rt w h options) ''image/png'' (Finite 0.9)")
         (simp_all add: resizeImage_def Let_def p)
  qed
  then show ?thesis by (simp add: progressTracker_enter)
qed

lemma compressImage_unregistered:
  assumes u: "progressCallbacks (progressTracker fp) jobId = None"
  shows "progressTracker (snd (compressImage rt file options jobId fp)) = progressTracker fp"
proof -
  let ?fp = "enter ''compressImage'' [file] fp"
  have u': "progressCallbacks (progressTracker ?fp) jobId = None"
    using u by (simp add: progressTracker_enter)
  note p = progress_unregistered[OF u']
  have "snd (compressImage rt file options jobId fp) = ?fp"
  proof (cases "image_load rt file")
    case None
    then show ?thesis by (simp add: compressImage_def Let_def p)
  next
    case (Some wh)
    obtain w h where wh: "wh = (w, h)" by (cases wh)
    show ?thesis using Some wh
      by (cases "canvas_toBlob rt file (Finite (real w), Finite (real h)) ''image/jpeg''
                   (getCompressionQuality (quality_or_medium options))")
         (simp_all add: compressImage_def Let_def p)
  qed
  then show ?thesis by (simp add: progressTracker_enter)
qed

lemma mergePDFs_unregistered:
  assumes u: "progressCallbacks (progressTracker fp) jobId = None"
  shows "progressTracker (snd (mergePDFs rt files options jobId fp)) = progressTracker fp"
proof -
  let ?fp = "enter ''mergePDFs'' files fp"
  have u': "progressCallbacks (progressTracker ?fp) jobId = None"
    using u by (simp add: progressTracker_enter)
  note p = progress_unregistered[OF u']
  obtain r s where x: "merge_files rt jobId (length files) 0 files [] ?fp = (r, s)"
    by (cases "merge_files rt jobId (length files) 0 files [] ?fp")
  have s: "s = ?fp"
    using merge_files_unregistered[OF u', of rt "length files" 0 files "[]"] x by simp
  have "snd (mergePDFs rt files options jobId fp) = ?fp"
  proof (cases r)
    case (Inl e)
    then show ?thesis using x s by (simp add: mergePDFs_def Let_def p)
  next
    case (Inr m)
    then show ?thesis using x s
      by (cases "pdflib_save rt False m") (simp_all add: mergePDFs_def Let_def p)
  qed
  then show ?thesis by (simp add: progressTracker_enter)
qed

lemma processFileByTool_unregistered:
  assumes u: "progressCallbacks (progressTracker fp) jobId = None"
  shows "progressTracker (snd (processFileByTool rt file toolId options jobId fp)) = progressTracker fp"
proof -
  let ?fp = "enter ''processFileByTool'' [file] fp"
  have u': "progressCallbacks (progressTracker ?fp) jobId = None"
    using u by (simp add: progressTracker_enter)
  show ?thesis
    unfolding processFileByTool_def Let_def
    using processPDFToWord_unregistered[OF u', of rt "file" options]
          mergePDFs_unregistered[OF u', of rt "[file]" options]
          compressPDF_unregistered[OF u', of rt "file" options]
          resizeImage_unregistered[OF u', of rt "file" options]
          compressImage_unregistered[OF u', of rt "file" options]
    by (simp add: progressTracker_enter)
qed

text \<open>
  Claim C10. \<open>processFile\<close> never registers a callback for the job identifier it
  generates. When that identifier is not registered already, the call, whatever its
  outcome, returns the tracker as it was: the same registrations, and no callback
  invoked.
\<close>

theorem processFile_leaves_tracker:
  assumes u: "progressCallbacks (progressTracker fp) jobId = None"
  shows "progressTracker (snd (processFile rt jobId errorId file toolId options fp)) = progressTracker fp"
proof (cases "validateFileForTool rt file toolId")
  case None
  then show ?thesis by (simp add: processFile_def)
next
  case (Some res)
  show ?thesis
  proof (cases res)
    case (Inl e)
    then show ?thesis using Some u
      by (simp add: processFile_def catch_block_def removeProgress_unregistered)
  next
    case (Inr v)
    show ?thesis
    proof (cases "isValid v")
      case False
      then show ?thesis using Some Inr u
        by (simp add: processFile_def catch_block_def removeProgress_unregistered)
    next
      case True
      let ?fp0 = "fp\<lparr>progressTracker := updateProgress jobId (Finite 0) (progressTracker fp)\<rparr>"
      have fp0: "?fp0 = fp" using u by (simp add: updateProgress_unregistered)
      obtain r s where x: "processFileByTool rt file toolId options jobId fp = (r, s)"
        by (cases "processFileByTool rt file toolId options jobId fp")
      have s: "progressTracker s = progressTracker fp"
        using processFileByTool_unregistered[OF u, of rt "file" toolId options] x by simp
      then have us: "progressCallbacks (progressTracker s) jobId = None" using u by simp
      show ?thesis using Some Inr True x s us
        by (cases r)
           (simp_all add: processFile_def fp0 catch_block_def completeProgress_def
              removeProgress_unregistered updateProgress_unregistered)
    qed
  qed
qed

theorem processFile_leaves_tracker_witness:
  "progressTracker (snd (processFile sample_env ''k3j9x2m1q'' ''7f3k2p9xq'' small_pdf
       ''compress-pdf'' no_options
       \<lparr>progressTracker = \<lparr>progressCallbacks = [''job-a'' \<mapsto> (7::nat)], invoked = []\<rparr>,
        entered = []\<rparr>)) =
     \<lparr>progressCallbacks = [''job-a'' \<mapsto> 7], invoked = []\<rparr>"
  using processFile_leaves_tracker[of
      "\<lparr>progressTracker = \<lparr>progressCallbacks = [''job-a'' \<mapsto> (7::nat)], invoked = []\<rparr>,
        entered = []\<rparr>" "''k3j9x2m1q''" sample_env "''7f3k2p9xq''" small_pdf
      "''compress-pdf''" no_options]
  by simp

text \<open>For comparison, a call whose job identifier is registered: the callback receives
  the milestones of \<open>compressPDF\<close> and is removed at the end.\<close>

lemma processFile_registered_job_example:
  "processFile sample_env ''job-a'' ''7f3k2p9xq'' small_pdf ''compress-pdf'' no_options
     \<lparr>progressTracker = \<lparr>progressCallbacks = [''job-a'' \<mapsto> (7::nat)], invoked = []\<rparr>,
      entered = []\<rparr> =
   (Some (Inr \<lparr>buffer = [0x25, 0x50, 0x44, 0x46, 0x0A], fileName = ''report_compressed.pdf'',
               mimeType = ''application/pdf'', byteSize = 5\<rparr>),
    \<lparr>progressTracker = \<lparr>progressCallbacks = Map.empty,
        invoked = [(7, Finite 0), (7, Finite 10), (7, Finite 30), (7, Finite 60),
                   (7, Finite 90), (7, Finite 100)]\<rparr>,
     entered = [(''processFileByTool'', [small_pdf]), (''compressPDF'', [small_pdf])]\<rparr>)"
  unfolding processFile_def small_pdf_compress_validation
  by (simp add: processFileByTool_def compressPDF_def Let_def progress_def enter_def
        updateProgress_def clamp_progress_def completeProgress_def removeProgress_def
        small_pdf_def sample_env_def)

end
